theory Spec2Isabelle
  imports Main "HOL-Library.Sublist" "HOL-Library.Char_ord" "HOL-Library.List_Lexorder"
begin

section \<open>Python strings\<close>

text \<open>
  A Python \<open>str\<close> is modelled as a list of characters, one \<open>char\<close> per code point,
  over the Latin-1 repertoire (code points 0 to 255). The accented letters the script
  names are \<open>CHR 0xE7\<close> (c with cedilla), \<open>CHR 0xE3\<close> (a with tilde), \<open>CHR 0xF5\<close>
  (o with tilde) and \<open>CHR 0xE1\<close> (a with acute).
\<close>

definition is_space :: "char \<Rightarrow> bool" where
  \<comment> \<open>\<open>str.isspace\<close> on one code point below 256\<close>
  "is_space c =
     (let n = (of_char c :: nat)
      in (9 \<le> n \<and> n \<le> 13) \<or> (28 \<le> n \<and> n \<le> 32) \<or> n = 133 \<or> n = 160)"

definition str_strip :: "string \<Rightarrow> string" where
  \<comment> \<open>\<open>s.strip()\<close>\<close>
  "str_strip s = rev (dropWhile is_space (rev (dropWhile is_space s)))"

definition lower_char :: "char \<Rightarrow> char" where
  "lower_char c =
     (let n = (of_char c :: nat)
      in if (65 \<le> n \<and> n \<le> 90) \<or> (192 \<le> n \<and> n \<le> 222 \<and> n \<noteq> 215)
         then char_of (n + 32) else c)"

definition str_lower :: "string \<Rightarrow> string" where
  \<comment> \<open>\<open>s.lower()\<close>\<close>
  "str_lower s = map lower_char s"

definition str_replace :: "char \<Rightarrow> char \<Rightarrow> string \<Rightarrow> string" where
  \<comment> \<open>\<open>s.replace(a, b)\<close> for one-character \<open>a\<close> and \<open>b\<close>\<close>
  "str_replace a b s = map (\<lambda>c. if c = a then b else c) s"

fun startswith :: "string \<Rightarrow> string \<Rightarrow> bool" where
  \<comment> \<open>\<open>s.startswith(k)\<close>, the string first and the prefix second\<close>
  "startswith s [] = True"
| "startswith [] (k # ks) = False"
| "startswith (c # cs) (k # ks) = (c = k \<and> startswith cs ks)"

fun py_in :: "string \<Rightarrow> string \<Rightarrow> bool" where
  \<comment> \<open>\<open>k in s\<close>: \<open>k\<close> occurs in \<open>s\<close> as a contiguous run\<close>
  "py_in k [] = (k = [])"
| "py_in k (c # cs) = (startswith (c # cs) k \<or> py_in k cs)"

fun str_nat :: "nat \<Rightarrow> string" where
  "str_nat n = (if n < 10 then [char_of (48 + n)] else str_nat (n div 10) @ [char_of (48 + n mod 10)])"

definition str_int :: "int \<Rightarrow> string" where
  \<comment> \<open>\<open>str(i)\<close> for a Python int\<close>
  "str_int i = (if i < 0 then CHR ''-'' # str_nat (nat (- i)) else str_nat (nat i))"

section \<open>Tables\<close>

text \<open>
  A cell of a loaded table is missing (\<open>NaN\<close>; also used for the missing timestamp
  \<open>NaT\<close>), a string, an integer or a timestamp (microseconds since the epoch).
  Floating-point cells are outside the model. A row maps column names to cells; only
  its values at the names listed in \<open>columns\<close> are meaningful.
\<close>

datatype cell = NaN | Str string | Num int | Tstamp int

type_synonym row = "string \<Rightarrow> cell"

record dataframe =
  columns :: "string list"
  rows :: "row list"

definition set_column :: "string \<Rightarrow> (row \<Rightarrow> cell) \<Rightarrow> dataframe \<Rightarrow> dataframe" where
  \<comment> \<open>\<open>df[c] = ...\<close>, the new value of each row computed from the row: an existing
      column is overwritten in place, a new one is appended\<close>
  "set_column c g df =
     \<lparr> columns = (if c \<in> set (columns df) then columns df else columns df @ [c]),
       rows = map (\<lambda>r. r(c := g r)) (rows df) \<rparr>"

definition select_rows :: "(row \<Rightarrow> bool) \<Rightarrow> dataframe \<Rightarrow> dataframe" where
  \<comment> \<open>\<open>df[mask]\<close> for a boolean mask computed row by row\<close>
  "select_rows p df = df \<lparr> rows := filter p (rows df) \<rparr>"

definition coluna :: "string \<Rightarrow> dataframe \<Rightarrow> cell list" where
  \<comment> \<open>\<open>df[c]\<close>, the values of a column from the first row to the last\<close>
  "coluna c df = map (\<lambda>r. r c) (rows df)"

definition df_empty :: "dataframe \<Rightarrow> bool" where
  \<comment> \<open>\<open>df.empty\<close>\<close>
  "df_empty df = (columns df = [] \<or> rows df = [])"

section \<open>Column classifier\<close>

definition situacao_til :: string where
  "situacao_til = ''situac'' @ [CHR 0xE3] @ ''o''"

definition area_acento :: string where
  "area_acento = [CHR 0xE1] @ ''rea''"

definition keywords_status :: "string list" where
  "keywords_status = [''status'', ''situacao'', situacao_til, ''estado'']"

definition keywords_departamento :: "string list" where
  "keywords_departamento =
     [''departamento'', ''setor'', ''area'', area_acento, ''dept'', ''unidade'', ''equipe'', ''time'']"

definition keywords_data :: "string list" where
  "keywords_data = [''data'', ''dt_'', ''abertura'', ''entrada'', ''registro'', ''entrada'']"

definition col_lower_subst :: "string \<Rightarrow> string" where
  \<comment> \<open>\<open>str(col).strip().lower().replace(c-cedilla, 'c').replace(a-tilde, 'a').replace(o-tilde, 'o')\<close>\<close>
  "col_lower_subst col =
     str_replace (CHR 0xF5) (CHR ''o'')
       (str_replace (CHR 0xE3) (CHR ''a'')
         (str_replace (CHR 0xE7) (CHR ''c'') (str_lower (str_strip col))))"

definition col_lower_plain :: "string \<Rightarrow> string" where
  \<comment> \<open>\<open>str(col).strip().lower()\<close>\<close>
  "col_lower_plain col = str_lower (str_strip col)"

definition any_keyword :: "string list \<Rightarrow> string \<Rightarrow> bool" where
  \<comment> \<open>\<open>any(keyword in col_lower for keyword in keywords)\<close>\<close>
  "any_keyword kws s = list_ex (\<lambda>k. py_in k s) kws"

fun first_col :: "(string \<Rightarrow> bool) \<Rightarrow> string list \<Rightarrow> string option" where
  \<comment> \<open>the loop \<open>for col in df.columns: if p(col): result = col; break\<close>, from \<open>None\<close>\<close>
  "first_col p [] = None"
| "first_col p (col # cols) = (if p col then Some col else first_col p cols)"

definition col_status :: "string list \<Rightarrow> string option" where
  "col_status cols = first_col (\<lambda>col. any_keyword keywords_status (col_lower_subst col)) cols"

definition col_departamento :: "string list \<Rightarrow> string option" where
  "col_departamento cols =
     first_col (\<lambda>col. any_keyword keywords_departamento (col_lower_subst col)) cols"

definition col_data :: "string list \<Rightarrow> string option" where
  "col_data cols = first_col (\<lambda>col. any_keyword keywords_data (col_lower_plain col)) cols"

definition truthy :: "string option \<Rightarrow> bool" where
  \<comment> \<open>Python truth value of a variable holding \<open>None\<close> or a string\<close>
  "truthy c = (case c of None \<Rightarrow> False | Some s \<Rightarrow> s \<noteq> [])"

section \<open>The library the script calls\<close>

text \<open>
  The script delegates date parsing, pattern search and CSV reading and writing to
  pandas. These are not part of the repository; the model takes them as a parameter
  \<open>P\<close> and only fixes how the script calls them.

  \<^item> \<open>to_datetime P dayfirst col\<close> is \<open>pd.to_datetime(col, errors='coerce', dayfirst=...)\<close>
    on the column \<open>col\<close>: the call raises, or it converts the column, each cell to a
    timestamp or to the missing timestamp (\<open>None\<close>). The conversion of a cell may depend
    on the column it is in. A converted column is either comparable with the value of
    \<open>datetime.now()\<close> (\<open>Naive\<close>) or not (\<open>Aware\<close>: the comparison raises).
  \<^item> \<open>str_timestamp P t\<close> is the string \<open>astype(str)\<close> gives a timestamp.
  \<^item> \<open>str_contains P pat s\<close> is \<open>Series.str.contains(pat)\<close> on one string, with the
    defaults the script leaves in place.
  \<^item> \<open>to_csv P df\<close> is the text \<open>df.to_csv(index=False)\<close>; \<open>read_csv P enc bytes\<close> is
    \<open>pd.read_csv(file, encoding=enc)\<close> on a file object whose unread content is
    \<open>bytes\<close>: the table, or \<open>None\<close> when it raises, with what is left unread;
    \<open>read_excel P bytes\<close> is \<open>pd.read_excel(file)\<close>.
\<close>

datatype converted = Raises | Naive "cell \<Rightarrow> int option" | Aware "cell \<Rightarrow> int option"

datatype encoding = Utf8 | Latin1 | Iso8859_1

record pandas =
  to_datetime :: "bool \<Rightarrow> cell list \<Rightarrow> converted"
  str_timestamp :: "int \<Rightarrow> string"
  str_contains :: "string \<Rightarrow> string \<Rightarrow> bool"
  to_csv :: "dataframe \<Rightarrow> string"
  read_csv :: "encoding \<Rightarrow> string \<Rightarrow> dataframe option \<times> string"
  read_excel :: "string \<Rightarrow> dataframe option"

definition astype_str :: "pandas \<Rightarrow> cell \<Rightarrow> string" where
  \<comment> \<open>\<open>astype(str)\<close> on one cell\<close>
  "astype_str P c =
     (case c of NaN \<Rightarrow> ''nan'' | Str s \<Rightarrow> s | Num i \<Rightarrow> str_int i | Tstamp t \<Rightarrow> str_timestamp P t)"

definition fillna :: "string \<Rightarrow> cell \<Rightarrow> cell" where
  "fillna d c = (case c of NaN \<Rightarrow> Str d | _ \<Rightarrow> c)"

definition isin :: "string list \<Rightarrow> cell \<Rightarrow> bool" where
  \<comment> \<open>\<open>Series.isin(values)\<close> on one cell, for a list of strings\<close>
  "isin vs c = (case c of Str s \<Rightarrow> s \<in> set vs | _ \<Rightarrow> False)"

section \<open>Normalizer\<close>

definition nao_especificado :: string where
  "nao_especificado = ''N'' @ [CHR 0xE3] @ ''o especificado''"

definition normalizado :: "pandas \<Rightarrow> string \<Rightarrow> cell \<Rightarrow> cell" where
  \<comment> \<open>\<open>fillna(d).astype(str).str.strip()\<close> on one cell\<close>
  "normalizado P d c = Str (str_strip (astype_str P (fillna d c)))"

definition unique :: "'a list \<Rightarrow> 'a list" where
  \<comment> \<open>\<open>Series.unique()\<close>: the distinct values in order of first appearance\<close>
  "unique xs = rev (remdups (rev xs))"

definition str_values :: "cell list \<Rightarrow> string list" where
  \<comment> \<open>the strings of a column that holds strings\<close>
  "str_values cs = concat (map (\<lambda>c. case c of Str s \<Rightarrow> [s] | _ \<Rightarrow> []) cs)"

definition todos_de :: "string \<Rightarrow> dataframe \<Rightarrow> string list" where
  \<comment> \<open>\<open>sorted([s for s in df[c].unique() if s and s != 'nan' and s != ''])\<close>\<close>
  "todos_de c df =
     sort (filter (\<lambda>s. s \<noteq> [] \<and> s \<noteq> ''nan'' \<and> s \<noteq> [])
             (unique (str_values (coluna c df))))"

definition processar_status :: "pandas \<Rightarrow> string \<Rightarrow> dataframe \<Rightarrow> dataframe" where
  "processar_status P cs df =
     set_column ''status_normalizado'' (\<lambda>r. normalizado P [] (r cs)) df"

definition processar_departamento :: "pandas \<Rightarrow> string option \<Rightarrow> dataframe \<Rightarrow> dataframe" where
  "processar_departamento P cd df =
     (case cd of
        Some c \<Rightarrow>
          if c \<noteq> [] then set_column ''departamento_normalizado'' (\<lambda>r. normalizado P nao_especificado (r c)) df
          else set_column ''departamento_normalizado'' (\<lambda>r. Str ''Todos'') df
      | None \<Rightarrow> set_column ''departamento_normalizado'' (\<lambda>r. Str ''Todos'') df)"

definition normalizar :: "pandas \<Rightarrow> string \<Rightarrow> string option \<Rightarrow> dataframe \<Rightarrow> dataframe" where
  \<comment> \<open>the two assignments in the order of the script\<close>
  "normalizar P cs cd df = processar_departamento P cd (processar_status P cs df)"

definition todos_status :: "dataframe \<Rightarrow> string list" where
  "todos_status df = todos_de ''status_normalizado'' df"

definition todos_departamentos :: "string option \<Rightarrow> dataframe \<Rightarrow> string list" where
  "todos_departamentos cd df = (if truthy cd then todos_de ''departamento_normalizado'' df else [])"

section \<open>Filter selection\<close>

datatype periodo = TodoPeriodo | Ultimos7 | Ultimos15 | Ultimos30 | Ultimos90

record selecao =
  ui_todos_dept :: bool
  ui_multiselect_dept :: "string list"
  ui_todos_status :: bool
  ui_multiselect_status :: "string list"
  ui_periodo :: periodo
  ui_busca :: string

definition dept_selecionados :: "string option \<Rightarrow> string list \<Rightarrow> selecao \<Rightarrow> string list" where
  "dept_selecionados cd todos ui =
     (if truthy cd then (if ui_todos_dept ui then todos else ui_multiselect_dept ui) else todos)"

definition status_selecionados :: "string list \<Rightarrow> selecao \<Rightarrow> string list" where
  "status_selecionados todos ui = (if ui_todos_status ui then todos else ui_multiselect_status ui)"

definition periodo_selecionado :: "string option \<Rightarrow> selecao \<Rightarrow> periodo" where
  "periodo_selecionado cdt ui = (if truthy cdt then ui_periodo ui else TodoPeriodo)"

section \<open>Filter engine\<close>

definition filtro_departamento :: "string option \<Rightarrow> string list \<Rightarrow> dataframe \<Rightarrow> dataframe" where
  "filtro_departamento cd dept_sel df =
     (if truthy cd \<and> dept_sel \<noteq> []
      then select_rows (\<lambda>r. isin dept_sel (r ''departamento_normalizado'')) df
      else df)"

definition filtro_status :: "string list \<Rightarrow> dataframe \<Rightarrow> dataframe" where
  "filtro_status status_sel df =
     (if status_sel \<noteq> []
      then select_rows (\<lambda>r. isin status_sel (r ''status_normalizado'')) df
      else df)"

fun dias_map :: "periodo \<Rightarrow> int option" where
  "dias_map Ultimos7 = Some 7"
| "dias_map Ultimos15 = Some 15"
| "dias_map Ultimos30 = Some 30"
| "dias_map Ultimos90 = Some 90"
| "dias_map TodoPeriodo = None"

definition timedelta_days :: "int \<Rightarrow> int" where
  \<comment> \<open>\<open>timedelta(days=n)\<close> in microseconds\<close>
  "timedelta_days n = n * 86400000000"

definition from_option :: "int option \<Rightarrow> cell" where
  "from_option v = (case v of None \<Rightarrow> NaN | Some t \<Rightarrow> Tstamp t)"

definition ge_limite :: "int \<Rightarrow> cell \<Rightarrow> bool" where
  \<comment> \<open>\<open>value >= data_limite\<close> on one cell of a datetime column; false for a missing one\<close>
  "ge_limite lim c = (case c of Tstamp t \<Rightarrow> lim \<le> t | _ \<Rightarrow> False)"

record filtrado =
  tabela :: dataframe
  aviso :: bool
  convertida :: bool

definition filtro_periodo_try ::
    "pandas \<Rightarrow> string \<Rightarrow> periodo \<Rightarrow> int \<Rightarrow> dataframe \<Rightarrow> filtrado" where
  \<comment> \<open>the \<open>try\<close> block and its \<open>except\<close>; \<open>aviso\<close> says that the handler ran,
      \<open>convertida\<close> that the assignment to \<open>data_convertida\<close> took place\<close>
  "filtro_periodo_try P cdt per now df =
     (case to_datetime P True (coluna cdt df) of
        Raises \<Rightarrow> \<lparr> tabela = df, aviso = True, convertida = False \<rparr>
      | Naive f \<Rightarrow>
          (let d1 = set_column ''data_convertida'' (\<lambda>r. from_option (f (r cdt))) df;
               d2 = select_rows (\<lambda>r. r ''data_convertida'' \<noteq> NaN) d1
           in case dias_map per of
                None \<Rightarrow> \<lparr> tabela = d2, aviso = True, convertida = True \<rparr>
              | Some dias_qtd \<Rightarrow>
                  (let data_limite = now - timedelta_days dias_qtd
                   in \<lparr> tabela = select_rows (\<lambda>r. ge_limite data_limite (r ''data_convertida'')) d2,
                        aviso = False, convertida = True \<rparr>))
      | Aware f \<Rightarrow>
          (let d1 = set_column ''data_convertida'' (\<lambda>r. from_option (f (r cdt))) df;
               d2 = select_rows (\<lambda>r. r ''data_convertida'' \<noteq> NaN) d1
           in \<lparr> tabela = d2, aviso = True, convertida = True \<rparr>))"

definition filtro_periodo ::
    "pandas \<Rightarrow> string option \<Rightarrow> periodo \<Rightarrow> int \<Rightarrow> dataframe \<Rightarrow> filtrado" where
  "filtro_periodo P cdt per now df =
     (case cdt of
        None \<Rightarrow> \<lparr> tabela = df, aviso = False, convertida = False \<rparr>
      | Some c \<Rightarrow>
          if c \<noteq> [] \<and> per \<noteq> TodoPeriodo then filtro_periodo_try P c per now df
          else \<lparr> tabela = df, aviso = False, convertida = False \<rparr>)"

definition busca_mask :: "pandas \<Rightarrow> string \<Rightarrow> string list \<Rightarrow> row \<Rightarrow> bool" where
  \<comment> \<open>\<open>row.str.lower().str.contains(busca_lower, na=False).any()\<close> on a row of
      \<open>df_filtrado.astype(str)\<close>\<close>
  "busca_mask P busca_lower cols r =
     list_ex (\<lambda>c. str_contains P busca_lower (str_lower (astype_str P (r c)))) cols"

definition filtro_busca :: "pandas \<Rightarrow> string \<Rightarrow> dataframe \<Rightarrow> dataframe" where
  "filtro_busca P busca df =
     (if busca \<noteq> [] then select_rows (busca_mask P (str_lower busca) (columns df)) df else df)"

definition aplicar_filtros ::
    "pandas \<Rightarrow> string option \<Rightarrow> string option \<Rightarrow> string list \<Rightarrow> string list \<Rightarrow> periodo
       \<Rightarrow> string \<Rightarrow> int \<Rightarrow> dataframe \<Rightarrow> filtrado" where
  \<comment> \<open>the four filters in the order of the script, on the normalised table\<close>
  "aplicar_filtros P cd cdt dept_sel status_sel per busca now df =
     (let f = filtro_periodo P cdt per now (filtro_status status_sel (filtro_departamento cd dept_sel df))
      in f \<lparr> tabela := filtro_busca P busca (tabela f) \<rparr>)"

section \<open>Loader\<close>

record arquivo =
  nome :: string
  conteudo :: string

definition endswith :: "string \<Rightarrow> string \<Rightarrow> bool" where
  "endswith s k = startswith (rev s) (rev k)"

fun tentar_codificacoes :: "pandas \<Rightarrow> encoding list \<Rightarrow> string \<Rightarrow> dataframe option" where
  \<comment> \<open>the loop over the encodings: the first call that does not raise wins; a call that
      raises leaves the file object where it stopped reading. With no encoding left
      \<open>df\<close> is unbound, and its use raises inside the outer \<open>try\<close>.\<close>
  "tentar_codificacoes P [] bytes = None"
| "tentar_codificacoes P (enc # encs) bytes =
     (case read_csv P enc bytes of
        (Some df, _) \<Rightarrow> Some df
      | (None, resto) \<Rightarrow> tentar_codificacoes P encs resto)"

definition dropna_colunas :: "dataframe \<Rightarrow> dataframe" where
  \<comment> \<open>\<open>df.dropna(axis=1, how='all')\<close>\<close>
  "dropna_colunas df =
     df \<lparr> columns := filter (\<lambda>c. list_ex (\<lambda>r. r c \<noteq> NaN) (rows df)) (columns df) \<rparr>"

definition carregar_dados :: "pandas \<Rightarrow> arquivo \<Rightarrow> dataframe option" where
  \<comment> \<open>\<open>None\<close> is the \<open>(None, None)\<close> of the \<open>except\<close> branch; the time stamp returned
      beside the table is left out\<close>
  "carregar_dados P file =
     (case (if endswith (nome file) ''.csv''
            then tentar_codificacoes P [Utf8, Latin1, Iso8859_1] (conteudo file)
            else read_excel P (conteudo file)) of
        None \<Rightarrow> None
      | Some df \<Rightarrow> Some (dropna_colunas df))"

section \<open>Temporal chart and export\<close>

datatype erro = LoadError | ConfigurationError "string list" | AttributeError

definition is_datetime_col :: "cell list \<Rightarrow> bool" where
  \<comment> \<open>a loaded column has a datetime type when it holds timestamps and missing values only\<close>
  "is_datetime_col cs =
     (list_all (\<lambda>c. case c of Tstamp t \<Rightarrow> True | NaN \<Rightarrow> True | _ \<Rightarrow> False) cs
      \<and> list_ex (\<lambda>c. case c of Tstamp t \<Rightarrow> True | _ \<Rightarrow> False) cs)"

definition grupos :: "row list \<Rightarrow> (int \<times> cell) list" where
  \<comment> \<open>the groups of \<open>groupby(['data_apenas', 'status_normalizado'])\<close>: the distinct pairs
      of calendar day and status over the rows whose date is not missing\<close>
  "grupos rs =
     remdups (concat (map (\<lambda>r. case r ''data_convertida'' of
                                 Tstamp t \<Rightarrow> [(t div 86400000000, r ''status_normalizado'')]
                               | _ \<Rightarrow> []) rs))"

definition grafico_temporal :: "string option \<Rightarrow> dataframe \<Rightarrow> filtrado \<Rightarrow> erro + bool" where
  \<comment> \<open>whether the line chart is drawn; \<open>df\<close> is the loaded table, whose column types the
      filtered table keeps. \<open>.dt\<close> raises on a column that is not of a datetime type.\<close>
  "grafico_temporal cdt df f =
     (if truthy cdt \<and> ''data_convertida'' \<in> set (columns (tabela f)) \<and> rows (tabela f) \<noteq> [] then
        if convertida f \<or> is_datetime_col (coluna ''data_convertida'' df)
        then Inr (1 < length (grupos (rows (tabela f))))
        else Inl AttributeError
      else Inr False)"

definition utf8_char :: "char \<Rightarrow> string" where
  "utf8_char c =
     (let n = (of_char c :: nat)
      in if n < 128 then [c] else [char_of (192 + n div 64), char_of (128 + n mod 64)])"

definition encode_utf8_sig :: "string \<Rightarrow> string" where
  \<comment> \<open>\<open>s.encode('utf-8-sig')\<close>: the byte-order mark, then UTF-8\<close>
  "encode_utf8_sig s = [CHR 0xEF, CHR 0xBB, CHR 0xBF] @ concat (map utf8_char s)"

definition exportar :: "pandas \<Rightarrow> string \<Rightarrow> dataframe \<Rightarrow> arquivo" where
  \<comment> \<open>the download: \<open>carimbo\<close> is the formatted time of the file name\<close>
  "exportar P carimbo df =
     \<lparr> nome = ''assistencia_'' @ carimbo @ ''.csv'', conteudo = encode_utf8_sig (to_csv P df) \<rparr>"

section \<open>The script\<close>

record saida =
  normalizada :: dataframe
  filtrada :: dataframe
  aviso_data :: bool
  evolucao_temporal :: bool
  download :: arquivo

definition painel :: "pandas \<Rightarrow> arquivo \<Rightarrow> selecao \<Rightarrow> int \<Rightarrow> string \<Rightarrow> erro + saida" where
  \<comment> \<open>one run of the script on an uploaded file, the state of the widgets, the current
      time and its formatted form; \<open>Inl\<close> is a run that stops early\<close>
  "painel P file ui now carimbo =
     (case carregar_dados P file of
        None \<Rightarrow> Inl LoadError
      | Some df0 \<Rightarrow>
          if df_empty df0 then Inl LoadError
          else
            (let cs = col_status (columns df0) in
             case cs of
               None \<Rightarrow> Inl (ConfigurationError (columns df0))
             | Some c \<Rightarrow>
                 if c = [] then Inl (ConfigurationError (columns df0))
                 else
                   (let cd = col_departamento (columns df0);
                        cdt = col_data (columns df0);
                        df = normalizar P c cd df0;
                        dept_sel = dept_selecionados cd (todos_departamentos cd df) ui;
                        status_sel = status_selecionados (todos_status df) ui;
                        per = periodo_selecionado cdt ui;
                        f = aplicar_filtros P cd cdt dept_sel status_sel per (ui_busca ui) now df
                    in case grafico_temporal cdt df f of
                         Inl e \<Rightarrow> Inl e
                       | Inr g \<Rightarrow>
                           Inr \<lparr> normalizada = df, filtrada = tabela f, aviso_data = aviso f,
                                 evolucao_temporal = g,
                                 download = exportar P carimbo (tabela f) \<rparr>)))"

section \<open>An instance of the library, to run the model on examples\<close>

text \<open>
  The examples below run the script on a small stand-in for the library: dates written
  \<open>dd/mm/yyyy\<close> (or \<open>mm/dd/yyyy\<close> without \<open>dayfirst\<close>), converted cell by cell to
  midnight of that day; patterns made of ordinary characters and of the dot, which
  stands for any character but a line feed; CSV text without quoting, fields separated
  by commas and lines ended by a line feed, read in one go. It only serves to evaluate
  the model; the theorems hold for every library.
\<close>

definition is_digit :: "char \<Rightarrow> bool" where
  "is_digit c = (let n = (of_char c :: nat) in 48 \<le> n \<and> n \<le> 57)"

definition num_of :: "string \<Rightarrow> nat option" where
  "num_of s =
     (if s \<noteq> [] \<and> list_all is_digit s
      then Some (foldl (\<lambda>a c. 10 * a + (of_char c - 48)) 0 s) else None)"

definition days_from_civil :: "int \<Rightarrow> int \<Rightarrow> int \<Rightarrow> int" where
  \<comment> \<open>days from 1970-01-01 to the given year, month and day\<close>
  "days_from_civil y0 m d =
     (let y = (if m \<le> 2 then y0 - 1 else y0);
          era = y div 400;
          yoe = y - era * 400;
          doy = (153 * (if m > 2 then m - 3 else m + 9) + 2) div 5 + d - 1;
          doe = yoe * 365 + yoe div 4 - yoe div 100 + doy
      in era * 146097 + doe - 719468)"

definition civil_from_days :: "int \<Rightarrow> int \<times> int \<times> int" where
  "civil_from_days z0 =
     (let z = z0 + 719468;
          era = z div 146097;
          doe = z - era * 146097;
          yoe = (doe - doe div 1460 + doe div 36524 - doe div 146096) div 365;
          doy = doe - (365 * yoe + yoe div 4 - yoe div 100);
          mp = (5 * doy + 2) div 153;
          d = doy - (153 * mp + 2) div 5 + 1;
          m = (if mp < 10 then mp + 3 else mp - 9);
          y = yoe + era * 400
      in (if m \<le> 2 then y + 1 else y, m, d))"

definition days_in_month :: "int \<Rightarrow> int \<Rightarrow> int" where
  "days_in_month y m =
     (if m = 2 then (if y mod 4 = 0 \<and> (y mod 100 \<noteq> 0 \<or> y mod 400 = 0) then 29 else 28)
      else if m = 4 \<or> m = 6 \<or> m = 9 \<or> m = 11 then 30 else 31)"

definition parse_date :: "bool \<Rightarrow> string \<Rightarrow> int option" where
  "parse_date dayfirst s =
     (if length s = 10 \<and> s ! 2 = CHR ''/'' \<and> s ! 5 = CHR ''/'' then
        (case (num_of (take 2 s), num_of (take 2 (drop 3 s)), num_of (drop 6 s)) of
           (Some a, Some b, Some y) \<Rightarrow>
             (let d = int (if dayfirst then a else b);
                  m = int (if dayfirst then b else a)
              in if 1 \<le> m \<and> m \<le> 12 \<and> 1 \<le> d \<and> d \<le> days_in_month (int y) m
                 then Some (timedelta_days (days_from_civil (int y) m d)) else None)
         | _ \<Rightarrow> None)
      else None)"

definition ex_converte :: "bool \<Rightarrow> cell \<Rightarrow> int option" where
  "ex_converte dayfirst c =
     (case c of Str s \<Rightarrow> parse_date dayfirst (str_strip s) | Tstamp t \<Rightarrow> Some t | _ \<Rightarrow> None)"

definition ex_to_datetime :: "bool \<Rightarrow> cell list \<Rightarrow> converted" where
  "ex_to_datetime dayfirst col = Naive (ex_converte dayfirst)"

definition pad :: "nat \<Rightarrow> int \<Rightarrow> string" where
  "pad w i = replicate (w - length (str_int i)) (CHR ''0'') @ str_int i"

definition ex_str_timestamp :: "int \<Rightarrow> string" where
  "ex_str_timestamp t =
     (let (y, m, d) = civil_from_days (t div 86400000000);
          secs = (t mod 86400000000) div 1000000
      in pad 4 y @ ''-'' @ pad 2 m @ ''-'' @ pad 2 d @
         (if t mod 86400000000 = 0 then []
          else '' '' @ pad 2 (secs div 3600) @ '':'' @ pad 2 (secs div 60 mod 60) @ '':'' @ pad 2 (secs mod 60)))"

definition re_special :: "char \<Rightarrow> bool" where
  "re_special c = (c \<in> set (CHR 0x5C # ''^$*+?{}[]|()''))"

fun re_match_here :: "string \<Rightarrow> string \<Rightarrow> bool" where
  "re_match_here [] s = True"
| "re_match_here (p # ps) [] = False"
| "re_match_here (p # ps) (c # cs) =
     ((if p = CHR ''.'' then c \<noteq> CHR 0x0A else p = c) \<and> re_match_here ps cs)"

fun re_search :: "string \<Rightarrow> string \<Rightarrow> bool" where
  "re_search pat [] = re_match_here pat []"
| "re_search pat (c # cs) = (re_match_here pat (c # cs) \<or> re_search pat cs)"

definition ex_str_contains :: "string \<Rightarrow> string \<Rightarrow> bool" where
  "ex_str_contains pat s = (\<not> list_ex re_special pat \<and> re_search pat s)"

fun split_on :: "char \<Rightarrow> string \<Rightarrow> string list" where
  \<comment> \<open>\<open>s.split(sep)\<close>\<close>
  "split_on sep [] = [[]]"
| "split_on sep (c # cs) =
     (if c = sep then [] # split_on sep cs
      else (case split_on sep cs of [] \<Rightarrow> [[c]] | w # ws \<Rightarrow> (c # w) # ws))"

definition join_with :: "char \<Rightarrow> string list \<Rightarrow> string" where
  "join_with sep ws = (case ws of [] \<Rightarrow> [] | w # ws' \<Rightarrow> w @ concat (map (\<lambda>v. sep # v) ws'))"

definition ex_field :: "cell \<Rightarrow> string" where
  "ex_field c =
     (case c of NaN \<Rightarrow> [] | Str s \<Rightarrow> s | Num i \<Rightarrow> str_int i | Tstamp t \<Rightarrow> ex_str_timestamp t)"

definition ex_to_csv :: "dataframe \<Rightarrow> string" where
  "ex_to_csv df =
     concat (map (\<lambda>l. l @ [CHR 0x0A])
       (join_with (CHR '','') (columns df)
        # map (\<lambda>r. join_with (CHR '','') (map (\<lambda>c. ex_field (r c)) (columns df))) (rows df)))"

fun decode_utf8 :: "string \<Rightarrow> string option" where
  "decode_utf8 [] = Some []"
| "decode_utf8 [c] = (if (of_char c :: nat) < 128 then Some [c] else None)"
| "decode_utf8 (c # d # cs) =
     (let n = (of_char c :: nat); k = (of_char d :: nat)
      in if n < 128 then map_option ((#) c) (decode_utf8 (d # cs))
         else if 194 \<le> n \<and> n \<le> 195 \<and> 128 \<le> k \<and> k < 192
         then map_option ((#) (char_of ((n - 192) * 64 + (k - 128)))) (decode_utf8 cs)
         else None)"

definition ex_decode :: "encoding \<Rightarrow> string \<Rightarrow> string option" where
  "ex_decode enc bytes =
     (case enc of
        Utf8 \<Rightarrow> decode_utf8 (if startswith bytes [CHR 0xEF, CHR 0xBB, CHR 0xBF] then drop 3 bytes else bytes)
      | _ \<Rightarrow> Some bytes)"

definition ex_value :: "string \<Rightarrow> cell" where
  "ex_value s =
     (if s \<in> set [[], ''nan'', ''NaN'', ''NA'', ''N/A'', ''null'', ''NULL'', ''None''] then NaN
      else case num_of s of
             Some n \<Rightarrow> Num (int n)
           | None \<Rightarrow>
               (case s of
                  c # s' \<Rightarrow> (case num_of s' of
                               Some n \<Rightarrow> if c = CHR ''-'' then Num (- int n) else Str s
                             | None \<Rightarrow> Str s)
                | [] \<Rightarrow> Str s))"

definition row_of :: "string list \<Rightarrow> cell list \<Rightarrow> row" where
  "row_of cols vals = (\<lambda>c. case map_of (zip cols vals) c of Some v \<Rightarrow> v | None \<Rightarrow> NaN)"

definition text_lines :: "string \<Rightarrow> string list" where
  \<comment> \<open>the lines of a text, blank lines skipped\<close>
  "text_lines s = filter (\<lambda>l. l \<noteq> []) (split_on (CHR 0x0A) s)"

definition ex_read_csv :: "encoding \<Rightarrow> string \<Rightarrow> dataframe option \<times> string" where
  "ex_read_csv enc bytes =
     (case ex_decode enc bytes of
        None \<Rightarrow> (None, [])
      | Some s \<Rightarrow>
          (case text_lines s of
             [] \<Rightarrow> (None, [])
           | h # ls \<Rightarrow>
               (Some \<lparr> columns = split_on (CHR '','') h,
                       rows = map (\<lambda>l. row_of (split_on (CHR '','') h) (map ex_value (split_on (CHR '','') l))) ls \<rparr>,
                [])))"

definition pandas_ex :: pandas where
  "pandas_ex =
     \<lparr> to_datetime = ex_to_datetime, str_timestamp = ex_str_timestamp,
       str_contains = ex_str_contains, to_csv = ex_to_csv, read_csv = ex_read_csv,
       read_excel = (\<lambda>bytes. None) \<rparr>"

section \<open>Example inputs\<close>

definition ui_padrao :: selecao where
  \<comment> \<open>the widgets as the page first shows them\<close>
  "ui_padrao =
     \<lparr> ui_todos_dept = True, ui_multiselect_dept = [], ui_todos_status = True,
       ui_multiselect_status = [], ui_periodo = TodoPeriodo, ui_busca = [] \<rparr>"

definition arquivo_sem_status :: arquivo where
  "arquivo_sem_status =
     \<lparr> nome = ''chamados.csv'',
       conteudo = ''Cliente,Setor'' @ [CHR 0x0A] @ ''Ana,TI'' @ [CHR 0x0A] \<rparr>"

definition col_situacao :: string where
  \<comment> \<open>the column name SITUACAO, upper case, with cedilla and tilde, between blanks\<close>
  "col_situacao = '' SITUA'' @ [CHR 0xC7, CHR 0xC3] @ ''O ''"

definition tabela_colisao :: dataframe where
  \<comment> \<open>a table whose only column already has the name of the derived status column\<close>
  "tabela_colisao =
     \<lparr> columns = [''status_normalizado''],
       rows = [row_of [''status_normalizado''] [Str '' Aberta '']] \<rparr>"

definition tabela_simples :: dataframe where
  "tabela_simples =
     \<lparr> columns = [''Status'', ''Setor''],
       rows = [row_of [''Status'', ''Setor''] [Str '' Aberta '', NaN],
               row_of [''Status'', ''Setor''] [Str '' nan'', Str ''TI'']] \<rparr>"

definition arquivo_nan :: arquivo where
  \<comment> \<open>one ticket, whose status cell reads nan between blanks\<close>
  "arquivo_nan =
     \<lparr> nome = ''chamados.csv'',
       conteudo = ''Status,Cliente'' @ [CHR 0x0A] @ '' nan ,Ana'' @ [CHR 0x0A] \<rparr>"

definition coluna_filtrada :: "string \<Rightarrow> erro + saida \<Rightarrow> cell list option" where
  \<comment> \<open>a column of the filtered table of a run, \<open>None\<close> for a run that stopped early\<close>
  "coluna_filtrada c res = (case res of Inl e \<Rightarrow> None | Inr s \<Rightarrow> Some (coluna c (filtrada s)))"

definition arquivo_cenario :: arquivo where
  \<comment> \<open>three tickets; the second status is Concluida with an acute i, in UTF-8\<close>
  "arquivo_cenario =
     \<lparr> nome = ''chamados.csv'',
       conteudo =
         ''Status,Setor,Data,Cliente'' @ [CHR 0x0A] @
         ''Aberta,TI,01/03/2024,Ana'' @ [CHR 0x0A] @
         ''Conclu'' @ [CHR 0xC3, CHR 0xAD] @ ''da,RH,15/02/2024,Bruno'' @ [CHR 0x0A] @
         ''Aberta,TI,20/02/2024,Carla'' @ [CHR 0x0A] \<rparr>"




definition tabela_cenario :: dataframe where
  \<comment> \<open>the three tickets as loaded\<close>
  "tabela_cenario = the (carregar_dados pandas_ex arquivo_cenario)"

definition df_cenario :: dataframe where
  \<comment> \<open>the three tickets after the Normalizer\<close>
  "df_cenario = normalizar pandas_ex ''Status'' (Some ''Setor'') tabela_cenario"

definition agora_cenario :: int where
  \<comment> \<open>2024-03-05, midnight\<close>
  "agora_cenario = timedelta_days (days_from_civil 2024 3 5)"

definition ui_7dias :: selecao where
  "ui_7dias = ui_padrao \<lparr> ui_periodo := Ultimos7 \<rparr>"

definition ui_90dias :: selecao where
  "ui_90dias = ui_padrao \<lparr> ui_periodo := Ultimos90 \<rparr>"

definition ui_busca_ponto :: selecao where
  \<comment> \<open>a single dot typed in the search box\<close>
  "ui_busca_ponto = ui_padrao \<lparr> ui_busca := ''.'' \<rparr>"


definition arquivo_datas_invalidas :: arquivo where
  \<comment> \<open>two tickets whose dates are words\<close>
  "arquivo_datas_invalidas =
     \<lparr> nome = ''chamados.csv'',
       conteudo =
         ''Status,Data,Cliente'' @ [CHR 0x0A] @
         ''Aberta,ontem,Ana'' @ [CHR 0x0A] @
         ''Aberta,hoje,Bruno'' @ [CHR 0x0A] \<rparr>"

definition pandas_raises :: pandas where
  \<comment> \<open>the example library, but with a date conversion that raises\<close>
  "pandas_raises = pandas_ex \<lparr> to_datetime := (\<lambda>dayfirst col. Raises) \<rparr>"

definition aviso_de :: "erro + saida \<Rightarrow> bool option" where
  \<comment> \<open>whether a run showed the date warning\<close>
  "aviso_de res = (case res of Inl e \<Rightarrow> None | Inr s \<Rightarrow> Some (aviso_data s))"

definition grafico_de :: "erro + saida \<Rightarrow> bool option" where
  \<comment> \<open>whether a run drew the temporal chart\<close>
  "grafico_de res = (case res of Inl e \<Rightarrow> None | Inr s \<Rightarrow> Some (evolucao_temporal s))"



definition df_datas :: dataframe where
  \<comment> \<open>the two tickets with words for dates, after the Normalizer\<close>
  "df_datas =
     normalizar pandas_ex ''Status'' None (the (carregar_dados pandas_ex arquivo_datas_invalidas))"

definition celula_contem :: "pandas \<Rightarrow> string \<Rightarrow> string list \<Rightarrow> row \<Rightarrow> bool" where
  \<comment> \<open>some cell of the row, in lower case, has the lower-cased text as a substring\<close>
  "celula_contem P q cols r =
     list_ex (\<lambda>c. py_in (str_lower q) (str_lower (astype_str P (r c)))) cols"







section \<open>Predicates in which the properties are stated\<close>

text \<open>
  These are not part of the script. They say in logical terms what a column name, a
  row or a search text has to satisfy, for the theorems to compare the script with.
\<close>

definition contem_keyword :: "string list \<Rightarrow> string \<Rightarrow> bool" where
  \<comment> \<open>the string contains one of the keywords as a substring\<close>
  "contem_keyword kws s = (\<exists>k\<in>set kws. \<exists>ps ss. s = ps @ k @ ss)"



definition na_janela :: "(cell \<Rightarrow> int option) \<Rightarrow> string \<Rightarrow> int \<Rightarrow> row \<Rightarrow> bool" where
  \<comment> \<open>date window: the date cell converts to a timestamp, not earlier than the limit\<close>
  "na_janela f c limite r = (\<exists>t. f (r c) = Some t \<and> limite \<le> t)"


definition com_data :: "(cell \<Rightarrow> int option) \<Rightarrow> string \<Rightarrow> row \<Rightarrow> row" where
  \<comment> \<open>the row with its converted date stored under \<open>data_convertida\<close>\<close>
  "com_data f c r = r(''data_convertida'' := from_option (f (r c)))"



section \<open>Properties of the string operations\<close>

lemma startswith_prefix: "startswith s k \<longleftrightarrow> prefix k s"
  by (induction s k rule: startswith.induct) auto

lemma py_in_sublist: "py_in k s \<longleftrightarrow> sublist k s"
  by (induction s) (auto simp: startswith_prefix sublist_Cons_right)

lemma py_in_iff: "py_in k s \<longleftrightarrow> (\<exists>ps ss. s = ps @ k @ ss)"
  by (simp add: py_in_sublist sublist_def)

lemma any_keyword_iff: "any_keyword kws s \<longleftrightarrow> (\<exists>k\<in>set kws. \<exists>ps ss. s = ps @ k @ ss)"
  by (simp add: any_keyword_def list_ex_iff py_in_iff)

lemma first_col_find: "first_col p cols = find p cols"
  by (induction cols) auto

lemma any_keyword_nonempty:
  assumes "any_keyword kws s" and "[] \<notin> set kws"
  shows "s \<noteq> []"
  using assms by (auto simp: any_keyword_iff)

lemma col_lower_subst_Nil: "col_lower_subst [] = []"
  by (simp add: col_lower_subst_def str_replace_def str_lower_def str_strip_def)

lemma col_lower_plain_Nil: "col_lower_plain [] = []"
  by (simp add: col_lower_plain_def str_lower_def str_strip_def)

lemma col_status_nonempty: "col_status cols = Some c \<Longrightarrow> c \<noteq> []"
proof
  assume f: "col_status cols = Some c" and e: "c = []"
  from f have "any_keyword keywords_status (col_lower_subst c)"
    by (auto simp: col_status_def first_col_find find_Some_iff)
  then have "col_lower_subst c \<noteq> []"
    by (rule any_keyword_nonempty) (simp add: keywords_status_def situacao_til_def)
  with e show False by (simp add: col_lower_subst_Nil)
qed

lemma col_departamento_nonempty: "col_departamento cols = Some c \<Longrightarrow> c \<noteq> []"
proof
  assume f: "col_departamento cols = Some c" and e: "c = []"
  from f have "any_keyword keywords_departamento (col_lower_subst c)"
    by (auto simp: col_departamento_def first_col_find find_Some_iff)
  then have "col_lower_subst c \<noteq> []"
    by (rule any_keyword_nonempty) (simp add: keywords_departamento_def area_acento_def)
  with e show False by (simp add: col_lower_subst_Nil)
qed

lemma col_data_nonempty: "col_data cols = Some c \<Longrightarrow> c \<noteq> []"
proof
  assume f: "col_data cols = Some c" and e: "c = []"
  from f have "any_keyword keywords_data (col_lower_plain c)"
    by (auto simp: col_data_def first_col_find find_Some_iff)
  then have "col_lower_plain c \<noteq> []"
    by (rule any_keyword_nonempty) (simp add: keywords_data_def)
  with e show False by (simp add: col_lower_plain_Nil)
qed

section \<open>Column classifier: the status column\<close>

text \<open>
  C3. The status column is the earliest column, in the order of the table, whose name,
  trimmed, lower-cased and with c-cedilla, a-tilde and o-tilde replaced by c, a and o,
  contains one of the four keywords. It is \<open>None\<close> exactly when no column name does,
  and then the run stops with \<open>ConfigurationError\<close> carrying the list of the columns:
  no later stage produces a result.
\<close>

theorem col_status_earliest_match:
  "(col_status cols = Some c \<longleftrightarrow>
      (\<exists>i<length cols. cols ! i = c \<and> contem_keyword keywords_status (col_lower_subst c)
          \<and> (\<forall>j<i. \<not> contem_keyword keywords_status (col_lower_subst (cols ! j)))))
   \<and> (col_status cols = None \<longleftrightarrow>
        (\<forall>x\<in>set cols. \<not> contem_keyword keywords_status (col_lower_subst x)))
   \<and> (carregar_dados P file = Some df0 \<and> \<not> df_empty df0
        \<and> (\<forall>x\<in>set (columns df0). \<not> contem_keyword keywords_status (col_lower_subst x))
      \<longrightarrow> painel P file ui now carimbo = Inl (ConfigurationError (columns df0)))"
proof (intro conjI impI)
  have k: "any_keyword kws s = contem_keyword kws s" for kws s
    by (simp add: any_keyword_iff contem_keyword_def)
  show "col_status cols = Some c \<longleftrightarrow>
      (\<exists>i<length cols. cols ! i = c \<and> contem_keyword keywords_status (col_lower_subst c)
          \<and> (\<forall>j<i. \<not> contem_keyword keywords_status (col_lower_subst (cols ! j))))"
    by (auto simp: col_status_def first_col_find find_Some_iff k)
  show n: "col_status cols = None \<longleftrightarrow>
        (\<forall>x\<in>set cols. \<not> contem_keyword keywords_status (col_lower_subst x))" for cols
    by (auto simp: col_status_def first_col_find find_None_iff k)
  assume a: "carregar_dados P file = Some df0 \<and> \<not> df_empty df0
        \<and> (\<forall>x\<in>set (columns df0). \<not> contem_keyword keywords_status (col_lower_subst x))"
  then have "col_status (columns df0) = None" by (simp add: n)
  with a show "painel P file ui now carimbo = Inl (ConfigurationError (columns df0))"
    by (simp add: painel_def)
qed

theorem col_status_earliest_match_witness:
  "col_status [''Cliente'', col_situacao, ''Status''] = Some col_situacao
   \<and> (\<exists>i<length [''Cliente'', col_situacao, ''Status''].
        [''Cliente'', col_situacao, ''Status''] ! i = col_situacao
        \<and> contem_keyword keywords_status (col_lower_subst col_situacao)
        \<and> (\<forall>j<i. \<not> contem_keyword keywords_status
                     (col_lower_subst ([''Cliente'', col_situacao, ''Status''] ! j))))
   \<and> painel pandas_ex arquivo_sem_status ui_padrao 0 [] = Inl (ConfigurationError [''Cliente'', ''Setor''])"
proof -
  let ?df0 = "the (carregar_dados pandas_ex arquivo_sem_status)"
  have e: "col_status [''Cliente'', col_situacao, ''Status''] = Some col_situacao"
    by code_simp
  have l: "\<not> Option.is_none (carregar_dados pandas_ex arquivo_sem_status)"
    by code_simp
  then have l': "carregar_dados pandas_ex arquivo_sem_status = Some ?df0"
    by (cases "carregar_dados pandas_ex arquivo_sem_status") simp_all
  have c: "columns ?df0 = [''Cliente'', ''Setor'']"
    by code_simp
  have ne: "\<not> df_empty ?df0"
    by code_simp
  have n: "col_status [''Cliente'', ''Setor''] = None"
    by code_simp
  from n col_status_earliest_match [of "[''Cliente'', ''Setor'']"]
  have no: "\<forall>x\<in>set (columns ?df0). \<not> contem_keyword keywords_status (col_lower_subst x)"
    by (simp add: c)
  have "\<exists>i<length [''Cliente'', col_situacao, ''Status''].
        [''Cliente'', col_situacao, ''Status''] ! i = col_situacao
        \<and> contem_keyword keywords_status (col_lower_subst col_situacao)
        \<and> (\<forall>j<i. \<not> contem_keyword keywords_status
                     (col_lower_subst ([''Cliente'', col_situacao, ''Status''] ! j)))"
    by (rule iffD1 [OF conjunct1 [OF col_status_earliest_match], OF e])
  moreover from l' ne no
    col_status_earliest_match [of _ _ pandas_ex arquivo_sem_status ?df0 ui_padrao 0 "[]"]
  have "painel pandas_ex arquivo_sem_status ui_padrao 0 [] = Inl (ConfigurationError [''Cliente'', ''Setor''])"
    by (simp add: c)
  ultimately show ?thesis using e by blast
qed

section \<open>Normalizer\<close>

lemma coluna_set_column_other:
  "c \<noteq> d \<Longrightarrow> coluna c (set_column d g df) = coluna c df"
  by (simp add: coluna_def set_column_def)

lemma rows_set_column: "length (rows (set_column d g df)) = length (rows df)"
  by (simp add: set_column_def)

lemma columns_set_column: "set (columns df) \<subseteq> set (columns (set_column d g df))"
  by (auto simp: set_column_def)

lemma processar_departamento_cases:
  "\<exists>g. processar_departamento P cd df = set_column ''departamento_normalizado'' g df"
  by (auto simp: processar_departamento_def split: option.splits)

text \<open>
  C9, as stated, fails: the derived columns are stored under fixed names, and a loaded
  column that already has one of these names is overwritten. Here the only column of
  the table is named \<open>status_normalizado\<close>; it is the status column, and its raw value,
  written between blanks, is replaced by the trimmed one.
\<close>

theorem normalizar_overwrites_counterexample:
  "col_status (columns tabela_colisao) = Some ''status_normalizado''
   \<and> coluna ''status_normalizado'' tabela_colisao = [Str '' Aberta '']
   \<and> coluna ''status_normalizado''
        (normalizar pandas_ex ''status_normalizado'' (col_departamento (columns tabela_colisao))
           tabela_colisao) = [Str ''Aberta'']"
  by code_simp

text \<open>
  C9, amended. The Normalizer keeps the number of rows and every column of the loaded
  table, and it leaves unchanged the values of every column whose name is neither
  \<open>status_normalizado\<close> nor \<open>departamento_normalizado\<close>.
\<close>

theorem normalizar_frame:
  "length (rows (normalizar P cs cd df)) = length (rows df)
   \<and> set (columns df) \<subseteq> set (columns (normalizar P cs cd df))
   \<and> (c \<noteq> ''status_normalizado'' \<and> c \<noteq> ''departamento_normalizado''
        \<longrightarrow> coluna c (normalizar P cs cd df) = coluna c df)"
proof -
  obtain g where g: "normalizar P cs cd df =
      set_column ''departamento_normalizado'' g (processar_status P cs df)"
    using processar_departamento_cases [of P cd "processar_status P cs df"]
    by (auto simp: normalizar_def)
  have "length (rows (normalizar P cs cd df)) = length (rows df)"
    by (simp add: g rows_set_column processar_status_def)
  moreover have "set (columns df) \<subseteq> set (columns (normalizar P cs cd df))"
    unfolding g processar_status_def
    using columns_set_column [of df] columns_set_column by blast
  moreover have "coluna c (normalizar P cs cd df) = coluna c df"
    if "c \<noteq> ''status_normalizado''" "c \<noteq> ''departamento_normalizado''"
    using that unfolding g processar_status_def
    by (simp add: coluna_set_column_other)
  ultimately show ?thesis by blast
qed

theorem normalizar_frame_witness:
  "coluna ''Status'' (normalizar pandas_ex ''Status'' (Some ''Setor'') tabela_simples)
     = coluna ''Status'' tabela_simples
   \<and> coluna ''Status'' tabela_simples = [Str '' Aberta '', Str '' nan'']
   \<and> coluna ''status_normalizado'' (normalizar pandas_ex ''Status'' (Some ''Setor'') tabela_simples)
     = [Str ''Aberta'', Str ''nan'']"
proof -
  have "''Status'' \<noteq> ''status_normalizado'' \<and> ''Status'' \<noteq> ''departamento_normalizado''"
    by simp
  with normalizar_frame [of pandas_ex "''Status''" "Some ''Setor''" tabela_simples "''Status''"]
  have "coluna ''Status'' (normalizar pandas_ex ''Status'' (Some ''Setor'') tabela_simples)
     = coluna ''Status'' tabela_simples"
    by blast
  moreover have "coluna ''Status'' tabela_simples = [Str '' Aberta '', Str '' nan'']"
    by code_simp
  moreover have "coluna ''status_normalizado''
      (normalizar pandas_ex ''Status'' (Some ''Setor'') tabela_simples) = [Str ''Aberta'', Str ''nan'']"
    by code_simp
  ultimately show ?thesis by blast
qed

section \<open>The universe of selectable values\<close>

lemma set_str_values: "set (str_values cs) = {s. Str s \<in> set cs}"
  by (induction cs) (auto simp: str_values_def split: cell.splits)

lemma set_todos_de:
  "set (todos_de c df) = {s. Str s \<in> set (coluna c df) \<and> s \<noteq> [] \<and> s \<noteq> ''nan''}"
  by (auto simp: todos_de_def unique_def set_str_values)


text \<open>
  C10, as stated, fails in its second half when no value is selectable at all. The
  uploaded table has one ticket, whose status reads \<open>nan\<close> between blanks: the list of
  selectable statuses is empty, "select all" selects the empty list, the status filter
  is skipped, and the ticket stays in the filtered table.
\<close>

theorem nan_row_kept_counterexample:
  "coluna_filtrada ''status_normalizado'' (painel pandas_ex arquivo_nan ui_padrao 0 [])
     = Some [Str ''nan'']
   \<and> coluna_filtrada ''Cliente'' (painel pandas_ex arquivo_nan ui_padrao 0 []) = Some [Str ''Ana'']"
  by code_simp

text \<open>
  C10, amended. The text \<open>nan\<close> is never among the selectable statuses nor among the
  selectable departments. When the list of selectable statuses is not empty and all of
  it is selected, the status filter removes every row whose status value is \<open>nan\<close>;
  likewise for the departments when a department column was detected.
\<close>

theorem nan_excluded_from_universe:
  "''nan'' \<notin> set (todos_status df)
   \<and> ''nan'' \<notin> set (todos_departamentos cd df)
   \<and> (todos_status df \<noteq> [] \<longrightarrow>
        (\<forall>r\<in>set (rows (filtro_status (todos_status df) df)).
            r ''status_normalizado'' \<noteq> Str ''nan''))
   \<and> (todos_departamentos cd df \<noteq> [] \<longrightarrow>
        (\<forall>r\<in>set (rows (filtro_departamento cd (todos_departamentos cd df) df)).
            r ''departamento_normalizado'' \<noteq> Str ''nan''))"
proof (intro conjI impI ballI)
  show s: "''nan'' \<notin> set (todos_status df)"
    by (simp add: todos_status_def set_todos_de)
  show d: "''nan'' \<notin> set (todos_departamentos cd df)"
    by (simp add: todos_departamentos_def set_todos_de)
  show "r ''status_normalizado'' \<noteq> Str ''nan''"
    if "todos_status df \<noteq> []" "r \<in> set (rows (filtro_status (todos_status df) df))" for r
  proof
    assume "r ''status_normalizado'' = Str ''nan''"
    with that have "''nan'' \<in> set (todos_status df)"
      by (auto simp: filtro_status_def select_rows_def isin_def)
    with s show False by simp
  qed
  show "r ''departamento_normalizado'' \<noteq> Str ''nan''"
    if "todos_departamentos cd df \<noteq> []"
      "r \<in> set (rows (filtro_departamento cd (todos_departamentos cd df) df))" for r
  proof
    assume e: "r ''departamento_normalizado'' = Str ''nan''"
    from that(1) have "truthy cd"
      by (auto simp: todos_departamentos_def split: if_splits)
    with that e have "''nan'' \<in> set (todos_departamentos cd df)"
      by (auto simp: filtro_departamento_def select_rows_def isin_def)
    with d show False by simp
  qed
qed

theorem nan_excluded_from_universe_witness:
  "todos_status (normalizar pandas_ex ''Status'' (Some ''Setor'') tabela_simples) = [''Aberta'']
   \<and> coluna ''status_normalizado'' (normalizar pandas_ex ''Status'' (Some ''Setor'') tabela_simples)
       = [Str ''Aberta'', Str ''nan'']
   \<and> list_all (\<lambda>r. r ''status_normalizado'' \<noteq> Str ''nan'')
         (rows (filtro_status
                (todos_status (normalizar pandas_ex ''Status'' (Some ''Setor'') tabela_simples))
                (normalizar pandas_ex ''Status'' (Some ''Setor'') tabela_simples)))
   \<and> coluna ''status_normalizado''
        (filtro_status (todos_status (normalizar pandas_ex ''Status'' (Some ''Setor'') tabela_simples))
           (normalizar pandas_ex ''Status'' (Some ''Setor'') tabela_simples)) = [Str ''Aberta'']"
proof -
  let ?df = "normalizar pandas_ex ''Status'' (Some ''Setor'') tabela_simples"
  have t: "todos_status ?df = [''Aberta'']"
    by code_simp
  then have "todos_status ?df \<noteq> []"
    by simp
  with nan_excluded_from_universe [of ?df "Some ''Setor''"]
  have "list_all (\<lambda>r. r ''status_normalizado'' \<noteq> Str ''nan'')
      (rows (filtro_status (todos_status ?df) ?df))"
    unfolding list_all_iff by blast
  moreover have "coluna ''status_normalizado'' ?df = [Str ''Aberta'', Str ''nan'']"
    by code_simp
  moreover have "coluna ''status_normalizado'' (filtro_status (todos_status ?df) ?df) = [Str ''Aberta'']"
    by code_simp
  ultimately show ?thesis using t by blast
qed

section \<open>Empty selections\<close>




section \<open>Filter engine\<close>








lemma columns_filtro_busca: "columns (filtro_busca P busca df) = columns df"
  by (simp add: filtro_busca_def select_rows_def)


lemma from_option_NaN: "from_option v \<noteq> NaN \<longleftrightarrow> v \<noteq> None"
  by (cases v) (simp_all add: from_option_def)

lemma ge_limite_from_option: "ge_limite lim (from_option v) \<longleftrightarrow> (\<exists>t. v = Some t \<and> lim \<le> t)"
  by (cases v) (simp_all add: from_option_def ge_limite_def)

lemma filtro_periodo_naive:
  assumes "cdt = Some c" "c \<noteq> []" "dias_map per = Some n"
    and "to_datetime P True (coluna c df) = Naive f"
  shows "rows (tabela (filtro_periodo P cdt per now df))
           = map (com_data f c) (filter (na_janela f c (now - timedelta_days n)) (rows df))"
    and "columns (tabela (filtro_periodo P cdt per now df))
           = columns (set_column ''data_convertida'' (\<lambda>r. from_option (f (r c))) df)"
    and "aviso (filtro_periodo P cdt per now df) = False"
proof -
  from assms(3) have p: "per \<noteq> TodoPeriodo" by auto
  have e: "filter (\<lambda>r. ge_limite lim (r ''data_convertida''))
          (filter (\<lambda>r. r ''data_convertida'' \<noteq> NaN) (map (com_data f c) xs))
        = map (com_data f c) (filter (na_janela f c lim) xs)" for lim xs
    by (induction xs) (auto simp: com_data_def na_janela_def from_option_NaN ge_limite_from_option)
  show "rows (tabela (filtro_periodo P cdt per now df))
           = map (com_data f c) (filter (na_janela f c (now - timedelta_days n)) (rows df))"
    using assms p e [of "now - timedelta_days n" "rows df"]
    by (simp add: filtro_periodo_def filtro_periodo_try_def select_rows_def set_column_def
        com_data_def [abs_def])
  show "columns (tabela (filtro_periodo P cdt per now df))
           = columns (set_column ''data_convertida'' (\<lambda>r. from_option (f (r c))) df)"
    using assms p
    by (simp add: filtro_periodo_def filtro_periodo_try_def select_rows_def set_column_def)
  show "aviso (filtro_periodo P cdt per now df) = False"
    using assms p by (simp add: filtro_periodo_def filtro_periodo_try_def)
qed


lemma filtro_busca_shape: "\<exists>q. rows (filtro_busca P busca df) = filter q (rows df)"
proof (cases "busca = []")
  case True
  then have "rows (filtro_busca P busca df) = filter (\<lambda>r. True) (rows df)"
    by (simp add: filtro_busca_def)
  then show ?thesis by (rule exI [of _ "\<lambda>r. True"])
next
  case False
  then have "rows (filtro_busca P busca df)
      = filter (busca_mask P (str_lower busca) (columns df)) (rows df)"
    by (simp add: filtro_busca_def select_rows_def)
  then show ?thesis by (rule exI [of _ "busca_mask P (str_lower busca) (columns df)"])
qed





lemma to_datetime_ex: "to_datetime pandas_ex dayfirst col = Naive (ex_converte dayfirst)"
  by (simp add: pandas_ex_def ex_to_datetime_def)




section \<open>The date window\<close>



section \<open>Dates that cannot be converted\<close>

text \<open>
  C5, as stated, fails: when no date of the table can be parsed, the conversion does
  not fail; it yields the missing timestamp for every row, the rows are all removed,
  and no warning is shown. Here the two tickets have words for dates.
\<close>

theorem unparseable_dates_counterexample:
  "coluna ''Data'' df_datas = [Str ''ontem'', Str ''hoje'']
   \<and> ex_converte True (Str ''ontem'') = None
   \<and> ex_converte True (Str ''hoje'') = None
   \<and> coluna_filtrada ''Cliente'' (painel pandas_ex arquivo_datas_invalidas ui_7dias agora_cenario [])
       = Some []
   \<and> aviso_de (painel pandas_ex arquivo_datas_invalidas ui_7dias agora_cenario []) = Some False"
  by code_simp

text \<open>
  C5, amended. When the conversion call itself raises, the warning is shown, the date
  filter is skipped, and the free-text filter runs on the rows that passed the
  department and status filters. When the conversion does not raise and yields the
  missing timestamp for every row, the filtered table is empty and no warning is shown.
\<close>

theorem date_conversion_failure:
  "(cdt = Some c \<and> c \<noteq> [] \<and> per \<noteq> TodoPeriodo
      \<and> to_datetime P True
            (coluna c (filtro_status status_sel (filtro_departamento cd dept_sel df))) = Raises
      \<longrightarrow> aplicar_filtros P cd cdt dept_sel status_sel per busca now df
          = \<lparr> tabela = filtro_busca P busca (filtro_status status_sel (filtro_departamento cd dept_sel df)),
              aviso = True, convertida = False \<rparr>)
   \<and> (cdt = Some c \<and> c \<noteq> [] \<and> per \<noteq> TodoPeriodo
      \<and> to_datetime P True
            (coluna c (filtro_status status_sel (filtro_departamento cd dept_sel df))) = Naive f
      \<and> (\<forall>r\<in>set (rows (filtro_status status_sel (filtro_departamento cd dept_sel df))).
             f (r c) = None)
      \<longrightarrow> rows (tabela (aplicar_filtros P cd cdt dept_sel status_sel per busca now df)) = []
          \<and> aviso (aplicar_filtros P cd cdt dept_sel status_sel per busca now df) = False)"
proof (intro conjI impI)
  let ?base = "filtro_status status_sel (filtro_departamento cd dept_sel df)"
  assume "cdt = Some c \<and> c \<noteq> [] \<and> per \<noteq> TodoPeriodo \<and> to_datetime P True (coluna c ?base) = Raises"
  then show "aplicar_filtros P cd cdt dept_sel status_sel per busca now df
      = \<lparr> tabela = filtro_busca P busca ?base, aviso = True, convertida = False \<rparr>"
    by (simp add: aplicar_filtros_def filtro_periodo_def filtro_periodo_try_def)
next
  let ?base = "filtro_status status_sel (filtro_departamento cd dept_sel df)"
  let ?F = "filtro_periodo P cdt per now ?base"
  assume a: "cdt = Some c \<and> c \<noteq> [] \<and> per \<noteq> TodoPeriodo \<and> to_datetime P True (coluna c ?base) = Naive f
      \<and> (\<forall>r\<in>set (rows ?base). f (r c) = None)"
  then obtain n where n: "dias_map per = Some n"
    by (cases per) auto
  from a n have "rows (tabela ?F)
      = map (com_data f c) (filter (na_janela f c (now - timedelta_days n)) (rows ?base))"
    by (simp add: filtro_periodo_naive)
  moreover from a have "filter (na_janela f c (now - timedelta_days n)) (rows ?base) = []"
    by (auto simp: filter_empty_conv na_janela_def)
  ultimately have e: "rows (tabela ?F) = []"
    by simp
  obtain q where "rows (filtro_busca P busca (tabela ?F)) = filter q (rows (tabela ?F))"
    using filtro_busca_shape by blast
  with e show "rows (tabela (aplicar_filtros P cd cdt dept_sel status_sel per busca now df)) = []"
    by (simp add: aplicar_filtros_def Let_def)
  from a n show "aviso (aplicar_filtros P cd cdt dept_sel status_sel per busca now df) = False"
    by (simp add: aplicar_filtros_def Let_def filtro_periodo_naive)
qed

theorem date_conversion_failure_witness:
  "aplicar_filtros pandas_raises None (Some ''Data'') [] [''Aberta''] Ultimos7 ''ana'' agora_cenario df_datas
     = \<lparr> tabela = filtro_busca pandas_raises ''ana''
                     (filtro_status [''Aberta''] (filtro_departamento None [] df_datas)),
         aviso = True, convertida = False \<rparr>
   \<and> coluna ''Cliente''
        (tabela (aplicar_filtros pandas_raises None (Some ''Data'') [] [''Aberta''] Ultimos7 ''ana''
                   agora_cenario df_datas)) = [Str ''Ana'']
   \<and> list_all (\<lambda>r. ex_converte True (r ''Data'') = None)
         (rows (filtro_status [''Aberta''] (filtro_departamento None [] df_datas)))
   \<and> rows (tabela (aplicar_filtros pandas_ex None (Some ''Data'') [] [''Aberta''] Ultimos7 ''ana''
                     agora_cenario df_datas)) = []
   \<and> aviso (aplicar_filtros pandas_ex None (Some ''Data'') [] [''Aberta''] Ultimos7 ''ana''
               agora_cenario df_datas) = False"
proof -
  let ?base = "filtro_status [''Aberta''] (filtro_departamento None [] df_datas)"
  have u: "\<forall>r\<in>set (rows ?base). ex_converte True (r ''Data'') = None"
    by code_simp
  have h1: "Some ''Data'' = Some ''Data'' \<and> ''Data'' \<noteq> [] \<and> Ultimos7 \<noteq> TodoPeriodo
      \<and> to_datetime pandas_raises True (coluna ''Data'' ?base) = Raises"
    by (simp add: pandas_raises_def)
  have h2: "Some ''Data'' = Some ''Data'' \<and> ''Data'' \<noteq> [] \<and> Ultimos7 \<noteq> TodoPeriodo
      \<and> to_datetime pandas_ex True (coluna ''Data'' ?base) = Naive (ex_converte True)
      \<and> (\<forall>r\<in>set (rows ?base). ex_converte True (r ''Data'') = None)"
    using u by (simp add: to_datetime_ex)
  note t1 = date_conversion_failure [where cdt = "Some ''Data''" and c = "''Data''" and per = Ultimos7
      and P = pandas_raises and status_sel = "[''Aberta'']" and cd = None and dept_sel = "[]"
      and df = df_datas and busca = "''ana''" and now = agora_cenario]
  note t2 = date_conversion_failure [where cdt = "Some ''Data''" and c = "''Data''" and per = Ultimos7
      and P = pandas_ex and status_sel = "[''Aberta'']" and cd = None and dept_sel = "[]"
      and df = df_datas and busca = "''ana''" and now = agora_cenario and f = "ex_converte True"]
  from h1 t1 have "aplicar_filtros pandas_raises None (Some ''Data'') [] [''Aberta''] Ultimos7 ''ana''
        agora_cenario df_datas
     = \<lparr> tabela = filtro_busca pandas_raises ''ana'' ?base, aviso = True, convertida = False \<rparr>"
    by blast
  moreover from h2 t2 have "rows (tabela (aplicar_filtros pandas_ex None (Some ''Data'') [] [''Aberta'']
        Ultimos7 ''ana'' agora_cenario df_datas)) = []
      \<and> aviso (aplicar_filtros pandas_ex None (Some ''Data'') [] [''Aberta''] Ultimos7 ''ana''
               agora_cenario df_datas) = False"
    by blast
  moreover have "coluna ''Cliente''
        (tabela (aplicar_filtros pandas_raises None (Some ''Data'') [] [''Aberta''] Ultimos7 ''ana''
                   agora_cenario df_datas)) = [Str ''Ana'']"
    by code_simp
  ultimately show ?thesis using u by (simp add: list_all_iff)
qed

section \<open>Free-text search\<close>

text \<open>
  C6. The search text is handed to \<open>str.contains\<close> with its defaults, under which it is
  a pattern and not a plain substring. With a single dot as the search text, no cell
  of the three tickets contains a dot, and yet every ticket is kept: the dot matches
  any character.
\<close>

theorem search_dot_keeps_all_rows:
  "\<not> list_ex (celula_contem pandas_ex ''.'' (columns df_cenario)) (rows df_cenario)
   \<and> coluna_filtrada ''Cliente'' (painel pandas_ex arquivo_cenario ui_busca_ponto agora_cenario [])
       = Some [Str ''Ana'', Str ''Bruno'', Str ''Carla'']"
  by code_simp

section \<open>Temporal chart\<close>

text \<open>
  C7. The chart is drawn only if the filtered table has the column \<open>data_convertida\<close>,
  which the date filter creates; with the whole period selected the date filter does
  not run. The three tickets have a date column and three distinct pairs of day and
  status, and no chart is drawn for the whole period, while one is drawn for the last
  90 days.
\<close>

theorem temporal_chart_whole_period:
  "col_data (columns tabela_cenario) = Some ''Data''
   \<and> length (grupos (map (com_data (ex_converte True) ''Data'') (rows df_cenario))) = 3
   \<and> grafico_de (painel pandas_ex arquivo_cenario ui_padrao agora_cenario []) = Some False
   \<and> grafico_de (painel pandas_ex arquivo_cenario ui_90dias agora_cenario []) = Some True"
  by code_simp

section \<open>Export and reload\<close>









end
